theory Spec2Isabelle
  imports Complex_Main "HOL-Library.Word" "HOL-Library.Sublist"
begin

unbundle bit_operations_syntax

section \<open>Package compress: identifiers, header keys, errors\<close>

text \<open>
  Go strings are byte sequences; \<^typ>\<open>string\<close> is a list of 8-bit characters.
  The constants keep the names of the source.
\<close>

definition GZIP :: string where "GZIP = ''gzip''"
definition DEFLATE :: string where "DEFLATE = ''deflate''"
definition BROTLI :: string where "BROTLI = ''br''"
definition SNAPPY :: string where "SNAPPY = ''snappy''"
definition S2 :: string where "S2 = ''s2''"
definition IDENTITY :: string where "IDENTITY = ''identity''"

definition AcceptEncodingHeaderKey :: string where "AcceptEncodingHeaderKey = ''Accept-Encoding''"
definition VaryHeaderKey :: string where "VaryHeaderKey = ''Vary''"
definition ContentEncodingHeaderKey :: string where "ContentEncodingHeaderKey = ''Content-Encoding''"
definition ContentLengthHeaderKey :: string where "ContentLengthHeaderKey = ''Content-Length''"
definition ContentTypeHeaderKey :: string where "ContentTypeHeaderKey = ''Content-Type''"

section \<open>The header negotiator\<close>

subsection \<open>Octet classes\<close>

text \<open>
  \<open>octetTypes\<close> is the table filled by \<open>init\<close>: bit \<open>isToken\<close> (1) for the
  characters of an RFC 2616 token, bit \<open>isSpace\<close> (2) for space, tab, CR and LF.
  The separators and the spaces are all ASCII, so for a byte above 127 the rune
  search of \<open>init\<close> finds nothing, as membership in the byte list does.
\<close>

definition isToken :: nat where "isToken = 1"
definition isSpace :: nat where "isSpace = 2"

definition separators :: string where
  "separators = [CHR '' '', CHR 0x09, CHR 0x22, CHR ''('', CHR '')'', CHR '','', CHR ''/'',
     CHR '':'', CHR '';'', CHR ''<'', CHR ''='', CHR ''>'', CHR ''?'', CHR ''@'', CHR ''['',
     CHR '']'', CHR 0x5C, CHR ''{'', CHR ''}'']"

definition spaces :: string where
  "spaces = [CHR '' '', CHR 0x09, CHR 0x0D, CHR 0x0A]"

definition octetTypes :: "char \<Rightarrow> nat" where
  "octetTypes ch =
     (let c = (of_char ch :: nat);
          isCtl = (c \<le> 31 \<or> c = 127);
          isChar = (c \<le> 127);
          isSeparator = (ch \<in> set separators);
          t0 = (0 :: nat);
          t1 = (if ch \<in> set spaces then t0 OR isSpace else t0);
          t2 = (if isChar \<and> \<not> isCtl \<and> \<not> isSeparator then t1 OR isToken else t1)
      in t2)"

fun skipSpace :: "string \<Rightarrow> string" where
  "skipSpace [] = []"
| "skipSpace (b # s) = (if octetTypes b AND isSpace = 0 then b # s else skipSpace s)"

fun expectTokenSlash :: "string \<Rightarrow> string \<times> string" where
  "expectTokenSlash [] = ([], [])"
| "expectTokenSlash (b # s) =
     (if octetTypes b AND isToken = 0 \<and> b \<noteq> CHR ''/'' then ([], b # s)
      else (case expectTokenSlash s of (token, rest) \<Rightarrow> (b # token, rest)))"

subsection \<open>Quality values\<close>

text \<open>
  A quality is a Go \<open>float64\<close>. The model keeps the value of a finite float as an
  exact rational and has the three special values a division by zero produces;
  rounding to 53 bits is not modelled, so only statements that rounding cannot
  change (comparisons with 0, 1 and 2, equalities of exactly representable values)
  are made about finite qualities. The comparisons are those of IEEE 754: every
  comparison with NaN is false.
\<close>

datatype float64 = Fin rat | PInf | NInf | NaN

fun flt :: "float64 \<Rightarrow> float64 \<Rightarrow> bool" where
  "flt NaN _ = False"
| "flt _ NaN = False"
| "flt (Fin a) (Fin b) = (a < b)"
| "flt (Fin _) PInf = True"
| "flt (Fin _) NInf = False"
| "flt PInf _ = False"
| "flt NInf NInf = False"
| "flt NInf _ = True"

definition fgt :: "float64 \<Rightarrow> float64 \<Rightarrow> bool" where
  "fgt a b = flt b a"

fun feq :: "float64 \<Rightarrow> float64 \<Rightarrow> bool" where
  "feq NaN _ = False"
| "feq _ NaN = False"
| "feq a b = (a = b)"

text \<open>\<open>float64(n) / float64(d)\<close> for two integers: a zero divisor gives an infinity or NaN.\<close>

definition fdiv :: "int \<Rightarrow> int \<Rightarrow> float64" where
  "fdiv n d =
     (if d = 0 then (if 0 < n then PInf else if n < 0 then NInf else NaN)
      else Fin (of_int n / of_int d))"

text \<open>\<open>q + x\<close> for a finite \<open>q\<close>.\<close>

fun fadd :: "rat \<Rightarrow> float64 \<Rightarrow> float64" where
  "fadd q (Fin x) = Fin (q + x)"
| "fadd q PInf = PInf"
| "fadd q NInf = NInf"
| "fadd q NaN = NaN"

text \<open>
  The digit loop of \<open>expectQuality\<close>. \<open>n\<close> and \<open>d\<close> are Go \<open>int\<close>s, 64 bits wide on
  the platforms the package is built for; their arithmetic wraps around.
\<close>

fun qualityDigits :: "string \<Rightarrow> 64 word \<Rightarrow> 64 word \<Rightarrow> 64 word \<times> 64 word \<times> string" where
  "qualityDigits [] n d = (n, d, [])"
| "qualityDigits (b # s) n d =
     (if (of_char b :: nat) < 48 \<or> (of_char b :: nat) > 57 then (n, d, b # s)
      else qualityDigits s (n * 10 + of_nat (of_char b) - 48) (d * 10))"

definition expectQuality :: "string \<Rightarrow> float64 \<times> string" where
  "expectQuality s =
     (case s of
        [] \<Rightarrow> (Fin (- 1), [])
      | c # s1 \<Rightarrow>
          if c = CHR ''0'' \<or> c = CHR ''1'' then
            (let q = (if c = CHR ''0'' then 0 else 1 :: rat) in
             if \<not> prefix ''.'' s1 then (Fin q, s1)
             else (case qualityDigits (tl s1) 0 1 of
                     (n, d, rest) \<Rightarrow> (fadd q (fdiv (sint n) (sint d)), rest)))
          else (Fin (- 1), []))"

subsection \<open>Parsing Accept headers\<close>

record acceptSpec =
  Value :: string
  Q :: float64

text \<open>
  One pass through the body of the inner \<open>for\<close> loop of \<open>parseAccept\<close>:
  \<open>NextValue\<close> is \<open>continue loop\<close> before anything is appended, \<open>AppendNextValue\<close> is
  \<open>continue loop\<close> after the append, \<open>AppendMore\<close> is the end of the body, with the
  string the next pass starts from.
\<close>

datatype pass = NextValue | AppendNextValue acceptSpec | AppendMore acceptSpec string

definition afterAppend :: "acceptSpec \<Rightarrow> string \<Rightarrow> pass" where
  "afterAppend spec s =
     (let s1 = skipSpace s in
      if \<not> prefix '','' s1 then AppendNextValue spec
      else AppendMore spec (skipSpace (tl s1)))"

definition parsePass :: "string \<Rightarrow> pass" where
  "parsePass s =
     (case expectTokenSlash s of (v, s1) \<Rightarrow>
        if v = [] then NextValue
        else
          (let s2 = skipSpace s1 in
           if prefix '';'' s2 then
             (let s3 = skipSpace (tl s2) in
              if \<not> prefix ''q='' s3 then NextValue
              else (case expectQuality (drop 2 s3) of (q, s4) \<Rightarrow>
                      if flt q (Fin 0) then NextValue
                      else afterAppend \<lparr>Value = v, Q = q\<rparr> s4))
           else afterAppend \<lparr>Value = v, Q = Fin 1\<rparr> s2))"

lemma length_skipSpace: "length (skipSpace s) \<le> length s"
  by (induction s) auto

lemma expectTokenSlash_append: "expectTokenSlash s = (v, r) \<Longrightarrow> s = v @ r"
  by (induction s arbitrary: v r) (auto split: if_splits prod.splits)

lemma length_qualityDigits: "qualityDigits s n d = (n', d', r) \<Longrightarrow> length r \<le> length s"
  by (induction s n d rule: qualityDigits.induct) (auto split: if_splits)

lemma length_expectQuality: "expectQuality s = (q, r) \<Longrightarrow> length r \<le> length s"
  by (cases s)
     (auto simp: expectQuality_def Let_def prefix_def split: if_splits prod.splits
           dest!: length_qualityDigits)

lemma afterAppend_shorter: "afterAppend spec s = AppendMore spec' s' \<Longrightarrow> length s' \<le> length s"
proof -
  assume a: "afterAppend spec s = AppendMore spec' s'"
  then have s': "s' = skipSpace (tl (skipSpace s))"
    by (auto simp: afterAppend_def Let_def split: if_splits)
  have "length (skipSpace (tl (skipSpace s))) \<le> length (tl (skipSpace s))"
    by (rule length_skipSpace)
  also have "\<dots> \<le> length (skipSpace s)" by simp
  also have "\<dots> \<le> length s" by (rule length_skipSpace)
  finally show ?thesis using s' by simp
qed

lemma parsePass_shorter:
  assumes "parsePass s = AppendMore spec s'"
  shows "length s' < length s"
proof -
  obtain v s1 where ts: "expectTokenSlash s = (v, s1)"
    by (cases "expectTokenSlash s")
  from assms ts have v: "v \<noteq> []"
    by (auto simp: parsePass_def split: if_splits)
  from expectTokenSlash_append[OF ts] v have l1: "length s1 < length s"
    by auto
  have l2: "length (skipSpace s1) \<le> length s1"
    by (rule length_skipSpace)
  show ?thesis
  proof (cases "prefix '';'' (skipSpace s1)")
    case False
    with assms ts v have "afterAppend \<lparr>Value = v, Q = Fin 1\<rparr> (skipSpace s1) = AppendMore spec s'"
      by (simp add: parsePass_def Let_def)
    from afterAppend_shorter[OF this] l1 l2 show ?thesis by simp
  next
    case True
    obtain q s4 where eq: "expectQuality (drop 2 (skipSpace (tl (skipSpace s1)))) = (q, s4)"
      by (cases "expectQuality (drop 2 (skipSpace (tl (skipSpace s1))))")
    from assms ts v True eq have "afterAppend \<lparr>Value = v, Q = q\<rparr> s4 = AppendMore spec s'"
      by (simp add: parsePass_def Let_def split: if_splits)
    from afterAppend_shorter[OF this] have "length s' \<le> length s4" .
    also from length_expectQuality[OF eq]
    have "length s4 \<le> length (drop 2 (skipSpace (tl (skipSpace s1))))" .
    also have "\<dots> \<le> length (skipSpace (tl (skipSpace s1)))" by simp
    also have "\<dots> \<le> length (tl (skipSpace s1))" by (rule length_skipSpace)
    also have "\<dots> \<le> length (skipSpace s1)" by simp
    finally show ?thesis using l1 l2 by simp
  qed
qed

text \<open>
  The inner \<open>for\<close> loop on one header value, with the slice \<open>specs\<close> it appends to.
  Every pass that goes on has consumed a non-empty token, so the loop ends.
\<close>

function parseEntries :: "string \<Rightarrow> acceptSpec list \<Rightarrow> acceptSpec list" where
  "parseEntries s specs =
     (case parsePass s of
        NextValue \<Rightarrow> specs
      | AppendNextValue spec \<Rightarrow> specs @ [spec]
      | AppendMore spec s' \<Rightarrow> parseEntries s' (specs @ [spec]))"
  by pat_completeness auto
termination
  by (relation "measure (\<lambda>(s, specs). length s)") (auto dest: parsePass_shorter)

declare parseEntries.simps [simp del]

fun parseAcceptLoop :: "string list \<Rightarrow> acceptSpec list \<Rightarrow> acceptSpec list" where
  "parseAcceptLoop [] specs = specs"
| "parseAcceptLoop (s # inp) specs = parseAcceptLoop inp (parseEntries s specs)"

definition parseAccept :: "string list \<Rightarrow> acceptSpec list" where
  "parseAccept inp = parseAcceptLoop inp []"

subsection \<open>Selecting the offer\<close>

text \<open>The inner loop over the parsed entries for one offer, on the pair \<open>(bestQ, bestOffer)\<close>.\<close>

fun scanSpecs :: "acceptSpec list \<Rightarrow> string \<Rightarrow> float64 \<times> string \<Rightarrow> float64 \<times> string" where
  "scanSpecs [] offer best = best"
| "scanSpecs (spec # specs) offer (bestQ, bestOffer) =
     scanSpecs specs offer
       (if fgt (Q spec) bestQ \<and> (Value spec = ''*'' \<or> Value spec = offer)
        then (Q spec, offer) else (bestQ, bestOffer))"

fun scanOffers :: "string list \<Rightarrow> acceptSpec list \<Rightarrow> float64 \<times> string \<Rightarrow> float64 \<times> string" where
  "scanOffers [] specs best = best"
| "scanOffers (offer # offers) specs best = scanOffers offers specs (scanSpecs specs offer best)"

definition negotiateAcceptHeader :: "string list \<Rightarrow> string list \<Rightarrow> string \<Rightarrow> string" where
  "negotiateAcceptHeader inp offers bestOffer =
     (let bestOffer0 = (if bestOffer = [] then IDENTITY else bestOffer);
          specs = parseAccept inp
      in case scanOffers offers specs (Fin (- 1), bestOffer0) of
           (bestQ, bestOffer1) \<Rightarrow> if feq bestQ (Fin 0) then [] else bestOffer1)"

section \<open>Errors and the external codec libraries\<close>

text \<open>
  The three error values of the package, the wrapping \<open>fmt.Errorf("%w: %s", err, s)\<close>
  and the errors the codec libraries return.
\<close>

datatype error =
    ErrResponseNotCompressed
  | ErrRequestNotCompressed
  | ErrNotSupportedCompression
  | Wrapped error string
  | CodecError string

text \<open>
  What the calls this package makes on the sink and on the compressing stream look like
  from outside, in the order they are made.
\<close>

datatype event =
    SinkWriteHeader int
  | SinkFlush
  | CodecWrite string
  | CodecFlush
  | CodecClose

text \<open>
  The codec libraries and \<open>net/http\<close> are not part of the package. What they answer
  is a parameter of the model: whether a constructor rejects a level or a stream, what
  a write or a flush of the compressing stream returns after the calls made so far,
  and the content type \<open>http.DetectContentType\<close> finds.
\<close>

record source =
  hasClose :: bool

record extern =
  gzipNewWriterLevel :: "int \<Rightarrow> string option"
  flateNewWriter :: "int \<Rightarrow> string option"
  gzipNewReader :: "source \<Rightarrow> string option"
  codecWrite :: "event list \<Rightarrow> string \<Rightarrow> int \<times> string option"
  codecFlush :: "event list \<Rightarrow> string option"
  DetectContentType :: "string \<Rightarrow> string"

text \<open>Libraries that accept every level and stream and write every byte.\<close>

definition noFailures :: extern where
  "noFailures =
     \<lparr>gzipNewWriterLevel = (\<lambda>_. None), flateNewWriter = (\<lambda>_. None),
      gzipNewReader = (\<lambda>_. None),
      codecWrite = (\<lambda>_ p. (int (length p), None)), codecFlush = (\<lambda>_. None),
      DetectContentType = (\<lambda>_. ''text/plain; charset=utf-8'')\<rparr>"

section \<open>The codec registry\<close>

text \<open>
  A compressing stream is known by its codec and the level it was built with; the sink
  it writes to is the one of the \<open>ResponseWriter\<close> that holds it.
\<close>

datatype Writer = GzipWriter int | FlateWriter int | BrotliWriter int | SnappyWriter | S2Writer

definition NewWriter :: "extern \<Rightarrow> string \<Rightarrow> int \<Rightarrow> error + Writer" where
  "NewWriter ext encoding level =
     (if encoding = GZIP then
        (case gzipNewWriterLevel ext level of
           Some e \<Rightarrow> Inl (CodecError e) | None \<Rightarrow> Inr (GzipWriter level))
      else if encoding = DEFLATE then
        (case flateNewWriter ext level of
           Some e \<Rightarrow> Inl (CodecError e) | None \<Rightarrow> Inr (FlateWriter level))
      else if encoding = BROTLI then
        Inr (BrotliWriter (if level = - 1 then 6 else level))
      else if encoding = SNAPPY then Inr SnappyWriter
      else if encoding = S2 then Inr S2Writer
      else Inl ErrNotSupportedCompression)"

section \<open>The request reader\<close>

text \<open>
  An \<open>io.ReadCloser\<close> held by a \<open>Reader\<close>: the gzip and flate readers of the libraries,
  the package's own \<open>noOpReadCloser\<close> around a reader, or the source itself when it has a
  \<open>Close\<close> method.
\<close>

datatype ioReader = BrotliReader | SnappyReader | S2Reader | SrcReader

datatype ReadCloser = GzipReader | FlateReader | NoOpReadCloser ioReader | SrcReadCloser

record Reader =
  ReadCloser :: ReadCloser
  Src :: ReadCloser
  rEncoding :: string

definition NewReader :: "extern \<Rightarrow> source option \<Rightarrow> string \<Rightarrow> error + Reader" where
  "NewReader ext src encoding =
     (case src of
        None \<Rightarrow> Inl ErrRequestNotCompressed
      | Some s \<Rightarrow>
          if encoding = [] then Inl ErrRequestNotCompressed
          else
            (let res =
               (if encoding = GZIP then
                  (case gzipNewReader ext s of
                     Some e \<Rightarrow> Inl (CodecError e) | None \<Rightarrow> Inr GzipReader)
                else if encoding = DEFLATE then Inr FlateReader
                else if encoding = BROTLI then Inr (NoOpReadCloser BrotliReader)
                else if encoding = SNAPPY then Inr (NoOpReadCloser SnappyReader)
                else if encoding = S2 then Inr (NoOpReadCloser S2Reader)
                else Inl ErrNotSupportedCompression)
             in case res of
                  Inl err \<Rightarrow> Inl err
                | Inr rc \<Rightarrow>
                    Inr \<lparr>ReadCloser = rc,
                         Src = (if hasClose s then SrcReadCloser else NoOpReadCloser SrcReader),
                         rEncoding = encoding\<rparr>))"

text \<open>
  The \<open>Close\<close> calls that leave the package. \<open>noOpReadCloser.Close\<close> returns nil and
  calls nothing; the readers of the libraries and a source with a \<open>Close\<close> method are
  called.
\<close>

datatype closeCall = CloseGzipReader | CloseFlateReader | CloseSource

fun closeReadCloser :: "ReadCloser \<Rightarrow> closeCall list" where
  "closeReadCloser GzipReader = [CloseGzipReader]"
| "closeReadCloser FlateReader = [CloseFlateReader]"
| "closeReadCloser (NoOpReadCloser _) = []"
| "closeReadCloser SrcReadCloser = [CloseSource]"

text \<open>
  \<open>Reader\<close> declares no \<open>Close\<close> of its own: \<open>Reader.Close\<close> is the method promoted from
  the embedded \<open>io.ReadCloser\<close>.
\<close>

definition Reader_Close :: "Reader \<Rightarrow> closeCall list" where
  "Reader_Close rd = closeReadCloser (ReadCloser rd)"

section \<open>The compressing response writer\<close>

text \<open>
  \<open>http.Header\<close> is \<open>map[string][]string\<close>. The keys the package uses are already in
  canonical form, so \<open>Set\<close>, \<open>Del\<close> and \<open>Values\<close>, which canonicalise their key, act on
  the key as written.
\<close>

type_synonym Header = "string \<rightharpoonup> string list"

definition Values :: "Header \<Rightarrow> string \<Rightarrow> string list" where
  "Values h key = (case h key of None \<Rightarrow> [] | Some vs \<Rightarrow> vs)"

definition Set_hdr :: "Header \<Rightarrow> string \<Rightarrow> string \<Rightarrow> Header" where
  "Set_hdr h key v = h(key \<mapsto> [v])"

definition Del :: "Header \<Rightarrow> string \<Rightarrow> Header" where
  "Del h key = h(key := None)"

definition AddCompressHeaders :: "Header \<Rightarrow> string \<Rightarrow> Header" where
  "AddCompressHeaders h encoding =
     Set_hdr (Set_hdr h VaryHeaderKey AcceptEncodingHeaderKey) ContentEncodingHeaderKey encoding"

text \<open>
  The wrapped \<open>http.ResponseWriter\<close>: its header map and the optional interfaces it
  implements. A request is its header map.
\<close>

record httpResponseWriter =
  Header :: Header
  isPusher :: bool
  isCloseNotifier :: bool
  isHijacker :: bool
  isFlusher :: bool

record Request =
  reqHeader :: Header

text \<open>
  The struct \<open>ResponseWriter\<close>. \<open>trace\<close> is not a field of the struct: it records the
  calls made through it on the sink and on the compressing stream, in order.
\<close>

record ResponseWriter =
  Writer :: Writer
  ResponseWriter :: httpResponseWriter
  Pusher :: bool
  CloseNotifier :: bool
  Hijacker :: bool
  Encoding :: string
  Level :: int
  AutoFlush :: bool
  wroteHeader :: bool
  trace :: "event list"

definition NewResponseWriter ::
    "extern \<Rightarrow> httpResponseWriter \<Rightarrow> Request \<Rightarrow> int \<Rightarrow> error + ResponseWriter" where
  "NewResponseWriter ext w r level =
     (let acceptEncoding = Values (reqHeader r) AcceptEncodingHeaderKey in
      if length acceptEncoding = 0 then Inl ErrResponseNotCompressed
      else
        (let encoding =
               negotiateAcceptHeader acceptEncoding [GZIP, DEFLATE, BROTLI, SNAPPY, S2] IDENTITY
         in if encoding = [] then Inl (Wrapped ErrNotSupportedCompression encoding)
            else
              (let level1 = (if level = - 1 \<and> encoding = BROTLI then 6 else level) in
               case NewWriter ext encoding level1 of
                 Inl err \<Rightarrow> Inl err
               | Inr cr \<Rightarrow>
                   Inr \<lparr>Writer = cr,
                        ResponseWriter = w\<lparr>Header := AddCompressHeaders (Header w) encoding\<rparr>,
                        Pusher = isPusher w,
                        CloseNotifier = isCloseNotifier w,
                        Hijacker = isHijacker w,
                        Encoding = encoding,
                        Level = level1,
                        AutoFlush = True,
                        wroteHeader = False,
                        trace = []\<rparr>)))"

definition WriteHeader :: "int \<Rightarrow> ResponseWriter \<Rightarrow> ResponseWriter" where
  "WriteHeader statusCode w =
     (if \<not> wroteHeader w then
        w\<lparr>wroteHeader := True,
          ResponseWriter :=
            (ResponseWriter w)\<lparr>Header := Del (Header (ResponseWriter w)) ContentLengthHeaderKey\<rparr>,
          trace := trace w @ [SinkWriteHeader statusCode]\<rparr>
      else w)"

definition StatusOK :: int where "StatusOK = 200"

text \<open>\<open>Write\<close> returns the writer after the call, the count and the error.\<close>

definition Write ::
    "extern \<Rightarrow> string \<Rightarrow> ResponseWriter \<Rightarrow> ResponseWriter \<times> int \<times> string option" where
  "Write ext p w =
     (let h = Header (ResponseWriter w);
          w1 = (if h ContentTypeHeaderKey = None then
                  w\<lparr>ResponseWriter :=
                      (ResponseWriter w)\<lparr>Header := h(ContentTypeHeaderKey \<mapsto> [DetectContentType ext p])\<rparr>\<rparr>
                else w);
          w2 = (if \<not> wroteHeader w1 then WriteHeader StatusOK w1 else w1);
          w3 = w2\<lparr>trace := trace w2 @ [CodecWrite p]\<rparr>
      in case codecWrite ext (trace w2) p of
           (n, Some err) \<Rightarrow> (w3, 0, Some err)
         | (n, None) \<Rightarrow>
             if AutoFlush w3 then
               (w3\<lparr>trace := trace w3 @ [CodecFlush]\<rparr>, n, codecFlush ext (trace w3))
             else (w3, n, None))"

definition Flush :: "ResponseWriter \<Rightarrow> ResponseWriter" where
  "Flush w =
     w\<lparr>trace := trace w @ [CodecFlush] @ (if isFlusher (ResponseWriter w) then [SinkFlush] else [])\<rparr>"

text \<open>\<open>Close\<close> is promoted from the embedded compressing stream.\<close>

definition Close :: "ResponseWriter \<Rightarrow> ResponseWriter" where
  "Close w = w\<lparr>trace := trace w @ [CodecClose]\<rparr>"

text \<open>What a handler does with a writer between construction and close.\<close>

datatype call = CallWriteHeader int | CallWrite string | CallFlush

fun perform :: "extern \<Rightarrow> call \<Rightarrow> ResponseWriter \<Rightarrow> ResponseWriter" where
  "perform ext (CallWriteHeader c) w = WriteHeader c w"
| "perform ext (CallWrite p) w = fst (Write ext p w)"
| "perform ext CallFlush w = Flush w"

fun performAll :: "extern \<Rightarrow> call list \<Rightarrow> ResponseWriter \<Rightarrow> ResponseWriter" where
  "performAll ext [] w = w"
| "performAll ext (c # cs) w = performAll ext cs (perform ext c w)"

section \<open>The middleware\<close>

text \<open>
  A handler receives the writer (the wrapped one or the original) and the request and
  leaves both in some state. \<open>WriteHandler\<close> returns what the handler left, after the
  deferred \<open>Close\<close>.
\<close>

datatype responseWriter = Original httpResponseWriter | Compressed ResponseWriter

type_synonym handler = "responseWriter \<Rightarrow> Request \<Rightarrow> responseWriter \<times> Request"

fun deferredClose :: "responseWriter \<times> Request \<Rightarrow> responseWriter \<times> Request" where
  "deferredClose (Compressed cr, r) = (Compressed (Close cr), r)"
| "deferredClose (Original w, r) = (Original w, r)"

definition WriteHandler ::
    "extern \<Rightarrow> handler \<Rightarrow> httpResponseWriter \<Rightarrow> Request \<Rightarrow> responseWriter \<times> Request" where
  "WriteHandler ext next w r =
     (case NewResponseWriter ext w r (- 1) of
        Inl err \<Rightarrow> next (Original w) r
      | Inr cr \<Rightarrow>
          deferredClose
            (next (Compressed cr) (r\<lparr>reqHeader := Del (reqHeader r) AcceptEncodingHeaderKey\<rparr>)))"


section \<open>Example values\<close>

text \<open>
  A sink that already carries a fixed \<open>Content-Length\<close>, and a request that accepts gzip.
\<close>

definition sink0 :: httpResponseWriter where
  "sink0 = \<lparr>Header = [ContentLengthHeaderKey \<mapsto> [''10'']], isPusher = False,
             isCloseNotifier = False, isHijacker = False, isFlusher = True\<rparr>"

definition req0 :: Request where
  "req0 = \<lparr>reqHeader = [AcceptEncodingHeaderKey \<mapsto> [''gzip'']]\<rparr>"

definition gzipWriter0 :: ResponseWriter where
  "gzipWriter0 =
     \<lparr>Writer = GzipWriter (- 1),
      ResponseWriter = sink0\<lparr>Header := AddCompressHeaders (Header sink0) GZIP\<rparr>,
      Pusher = False, CloseNotifier = False, Hijacker = False,
      Encoding = GZIP, Level = - 1, AutoFlush = True, wroteHeader = False, trace = []\<rparr>"

text \<open>The status codes the sink has received, in order.\<close>

fun sinkWriteHeaders :: "event list \<Rightarrow> int list" where
  "sinkWriteHeaders [] = []"
| "sinkWriteHeaders (SinkWriteHeader c # es) = c # sinkWriteHeaders es"
| "sinkWriteHeaders (_ # es) = sinkWriteHeaders es"

text \<open>The sink has received one status code exactly when \<open>wroteHeader\<close> is set.\<close>

definition headerState :: "ResponseWriter \<Rightarrow> bool" where
  "headerState w = (length (sinkWriteHeaders (trace w)) = (if wroteHeader w then 1 else 0))"

section \<open>Facts about the negotiator used by several results\<close>

lemma negotiate_gzip:
  "negotiateAcceptHeader [''gzip''] [''gzip'', ''deflate'', ''br'', ''snappy'', ''s2''] ''identity''
     = ''gzip''"
  by code_simp

lemma NewResponseWriter_sink0:
  "NewResponseWriter noFailures sink0 req0 (- 1) = Inr gzipWriter0"
  by (simp add: NewResponseWriter_def req0_def sink0_def Values_def AcceptEncodingHeaderKey_def
      negotiate_gzip NewWriter_def noFailures_def gzipWriter0_def Let_def
      GZIP_def DEFLATE_def BROTLI_def SNAPPY_def S2_def IDENTITY_def)

section \<open>The codec registry: results\<close>

text \<open>
  C8. \<open>NewWriter\<close> returns \<open>ErrNotSupportedCompression\<close> for every identifier outside
  gzip, deflate, br, snappy and s2, in particular for the reserved \<open>identity\<close>; and for
  \<open>br\<close> with level -1 the stream is built with level 6.
\<close>

theorem NewWriter_registry:
  "(encoding \<notin> {GZIP, DEFLATE, BROTLI, SNAPPY, S2} \<longrightarrow>
      NewWriter ext encoding level = Inl ErrNotSupportedCompression)
   \<and> NewWriter ext IDENTITY level = Inl ErrNotSupportedCompression
   \<and> NewWriter ext BROTLI (- 1) = Inr (BrotliWriter 6)"
  by (simp add: NewWriter_def GZIP_def DEFLATE_def BROTLI_def SNAPPY_def S2_def IDENTITY_def)

theorem NewWriter_registry_witness:
  "NewWriter noFailures ''zstd'' 3 = Inl ErrNotSupportedCompression"
  using NewWriter_registry [of "''zstd''" noFailures 3]
  by (simp add: GZIP_def DEFLATE_def BROTLI_def SNAPPY_def S2_def)


section \<open>The response writer: results\<close>

lemma sinkWriteHeaders_append:
  "sinkWriteHeaders (xs @ ys) = sinkWriteHeaders xs @ sinkWriteHeaders ys"
  by (induction xs rule: sinkWriteHeaders.induct) auto

lemma WriteHeader_state: "headerState w \<Longrightarrow> headerState (WriteHeader c w)"
  by (simp add: headerState_def WriteHeader_def sinkWriteHeaders_append)

lemma Write_state: "headerState w \<Longrightarrow> headerState (fst (Write ext p w))"
  by (auto simp: headerState_def Write_def WriteHeader_def Let_def sinkWriteHeaders_append
      split: prod.splits option.splits)

lemma Flush_state: "headerState w \<Longrightarrow> headerState (Flush w)"
  by (simp add: headerState_def Flush_def sinkWriteHeaders_append)

lemma perform_state: "headerState w \<Longrightarrow> headerState (perform ext c w)"
  by (cases c) (simp_all add: WriteHeader_state Write_state Flush_state)

lemma performAll_state: "headerState w \<Longrightarrow> headerState (performAll ext cs w)"
  by (induction cs arbitrary: w) (simp_all add: perform_state)

lemma NewResponseWriter_fresh:
  "NewResponseWriter ext w r level = Inr v \<Longrightarrow> \<not> wroteHeader v \<and> trace v = [] \<and> AutoFlush v"
  by (auto simp: NewResponseWriter_def Let_def split: if_splits sum.splits)


text \<open>
  C9. The first \<open>WriteHeader\<close> deletes \<open>Content-Length\<close>, forwards the status code to the
  sink and sets \<open>wroteHeader\<close>; a later call changes nothing; so whatever a handler calls
  on a freshly constructed \<open>ResponseWriter\<close>, the sink's \<open>WriteHeader\<close> is invoked at most
  once.
\<close>

theorem WriteHeader_once:
  "(\<not> wroteHeader w \<longrightarrow>
      Header (ResponseWriter (WriteHeader c w)) ContentLengthHeaderKey = None
      \<and> trace (WriteHeader c w) = trace w @ [SinkWriteHeader c]
      \<and> wroteHeader (WriteHeader c w))
   \<and> (wroteHeader w \<longrightarrow> WriteHeader c w = w)
   \<and> (NewResponseWriter ext s r level = Inr v \<longrightarrow>
        length (sinkWriteHeaders (trace (performAll ext cs v))) \<le> 1)"
proof (intro conjI impI)
  assume "NewResponseWriter ext s r level = Inr v"
  then have "headerState v"
    using NewResponseWriter_fresh [of ext s r level v] by (simp add: headerState_def)
  then have "headerState (performAll ext cs v)"
    by (rule performAll_state)
  then show "length (sinkWriteHeaders (trace (performAll ext cs v))) \<le> 1"
    by (simp add: headerState_def split: if_splits)
qed (simp_all add: WriteHeader_def Del_def)

theorem WriteHeader_once_witness:
  "Header (ResponseWriter (WriteHeader 404 gzipWriter0)) ContentLengthHeaderKey = None
   \<and> trace (WriteHeader 404 gzipWriter0) = [SinkWriteHeader 404]
   \<and> WriteHeader 500 (WriteHeader 404 gzipWriter0) = WriteHeader 404 gzipWriter0
   \<and> length (sinkWriteHeaders (trace (performAll noFailures
        [CallWriteHeader 404, CallWrite ''hi'', CallWriteHeader 500] gzipWriter0))) \<le> 1"
proof -
  have fresh: "\<not> wroteHeader gzipWriter0" "trace gzipWriter0 = []"
    by (simp_all add: gzipWriter0_def)
  have sent: "wroteHeader (WriteHeader 404 gzipWriter0)"
    by (simp add: WriteHeader_def gzipWriter0_def)
  show ?thesis
    using WriteHeader_once [of gzipWriter0 404 noFailures sink0 req0 "- 1" gzipWriter0
            "[CallWriteHeader 404, CallWrite ''hi'', CallWriteHeader 500]"]
      WriteHeader_once [of "WriteHeader 404 gzipWriter0" 500] fresh sent NewResponseWriter_sink0
    by simp
qed





end
